theory Spec2Isabelle
  imports Main
begin

section \<open>Directory-listing line parser of the FTP client (parse.go)\<close>

text \<open>
  The development embeds \<^verbatim>\<open>parse.go\<close>: the five recognizers of one LIST line, the
  shared setters \<^verbatim>\<open>setSize\<close> and \<^verbatim>\<open>setTime\<close>, and the dispatch chain
  \<^verbatim>\<open>parseListLine\<close>. Go strings are byte strings (\<open>string\<close>, a \<open>char list\<close>);
  Go's \<^verbatim>\<open>int\<close> indices are \<open>int\<close>; an \<^verbatim>\<open>error\<close> is a value of the datatype
  \<open>error\<close>, and a function returning \<^verbatim>\<open>(*Entry, error)\<close> returns \<open>error + Entry\<close>.
  A slice expression whose bounds are out of range panics in Go; the model returns
  \<open>Inl Panic\<close> there.
\<close>

subsection \<open>Errors\<close>

text \<open>
  The three package-level sentinels of \<^verbatim>\<open>parse.go\<close>, the two error kinds of the Go
  library that the recognizers pass on (\<^verbatim>\<open>*strconv.NumError\<close> with its two causes,
  \<^verbatim>\<open>*time.ParseError\<close>), and the run-time panic of an out-of-range slice.
\<close>

datatype error =
    ErrUnsupportedListLine
  | ErrUnsupportedListDate
  | ErrUnknownListEntryType
  | NumErrSyntax
  | NumErrRange
  | TimeParseError
  | Panic

subsection \<open>The parts of Go's \<^verbatim>\<open>strings\<close> package that the parser calls\<close>

definition HasPrefix :: "string \<Rightarrow> string \<Rightarrow> bool" where
  "HasPrefix s p = (take (length p) s = p)"

definition HasSuffix :: "string \<Rightarrow> string \<Rightarrow> bool" where
  "HasSuffix s p = (length p \<le> length s \<and> drop (length s - length p) s = p)"

text \<open>\<^verbatim>\<open>strings.Index\<close>: the byte index of the first occurrence, \<open>-1\<close> when there is none.\<close>

fun Index :: "string \<Rightarrow> string \<Rightarrow> int" where
  "Index [] sub = (if sub = [] then 0 else - 1)"
| "Index (c # cs) sub =
     (if HasPrefix (c # cs) sub then 0
      else (let r = Index cs sub in if r < 0 then - 1 else r + 1))"

definition IndexByte :: "string \<Rightarrow> char \<Rightarrow> int" where
  "IndexByte s c = Index s [c]"

definition Contains :: "string \<Rightarrow> string \<Rightarrow> bool" where
  "Contains s sub = (0 \<le> Index s sub)"

text \<open>\<^verbatim>\<open>strings.Split\<close> with a one-byte separator: one more piece than separators.\<close>

fun Split :: "string \<Rightarrow> char \<Rightarrow> string list" where
  "Split [] sep = [[]]"
| "Split (c # cs) sep =
     (if c = sep then [] # Split cs sep
      else (case Split cs sep of [] \<Rightarrow> [[c]] | p # ps \<Rightarrow> (c # p) # ps))"

text \<open>
  \<^verbatim>\<open>strings.ToLower\<close> on the ASCII letters; every other byte is kept. (Go also maps
  letters beyond ASCII; the keys the parser compares with are ASCII.)
\<close>

definition toLowerByte :: "char \<Rightarrow> char" where
  "toLowerByte c =
     (case map_of (zip ''ABCDEFGHIJKLMNOPQRSTUVWXYZ'' ''abcdefghijklmnopqrstuvwxyz'') c of
        Some l \<Rightarrow> l
      | None \<Rightarrow> c)"

definition ToLower :: "string \<Rightarrow> string" where
  "ToLower s = map toLowerByte s"

definition TrimLeft :: "string \<Rightarrow> char \<Rightarrow> string" where
  "TrimLeft s c = dropWhile (\<lambda>x. x = c) s"

definition TrimPrefix :: "string \<Rightarrow> string \<Rightarrow> string" where
  "TrimPrefix s p = (if HasPrefix s p then drop (length p) s else s)"

text \<open>
  The slice expression \<^verbatim>\<open>s[lo:hi]\<close>: Go panics unless \<open>0 \<le> lo \<le> hi \<le> len(s)\<close>.
\<close>

definition len :: "'a list \<Rightarrow> int" where
  "len s = int (length s)"

definition slice :: "'a list \<Rightarrow> int \<Rightarrow> int \<Rightarrow> error + 'a list" where
  "slice s lo hi =
     (if 0 \<le> lo \<and> lo \<le> hi \<and> hi \<le> len s
      then Inr (take (nat (hi - lo)) (drop (nat lo) s))
      else Inl Panic)"

subsection \<open>\<^verbatim>\<open>strconv.ParseUint\<close> and \<^verbatim>\<open>strconv.Atoi\<close>\<close>

definition byte :: "char \<Rightarrow> int" where
  "byte c = of_char c"

text \<open>\<^verbatim>\<open>lower(c)\<close> of strconv is \<^verbatim>\<open>c | ('x' - 'X')\<close>.\<close>

definition lower :: "char \<Rightarrow> int" where
  "lower c = or (byte c) 32"

definition maxUint64 :: int where
  "maxUint64 = 18446744073709551615"

text \<open>
  The digit loop of \<^verbatim>\<open>ParseUint\<close>; \<open>accumulate\<close> is the body of one round for a
  byte that is not a skipped underscore. The accumulator is a \<^verbatim>\<open>uint64\<close>: it is kept
  as an \<open>int\<close> in \<open>[0, 2 ^ 64)\<close>, and the sum \<^verbatim>\<open>n1 := n + d\<close> is reduced modulo
  \<open>2 ^ 64 = maxUint64 + 1\<close> as the machine does before the test
  \<^verbatim>\<open>n1 < n || n1 > maxVal\<close>. The product \<^verbatim>\<open>n *= base\<close> is only reached when
  \<open>n < cutoff\<close>, where it cannot wrap. The result of the loop carries whether an
  underscore was seen.
\<close>

definition accumulate :: "int \<Rightarrow> int \<Rightarrow> char \<Rightarrow> error + int" where
  "accumulate base n c =
     (if \<not> (48 \<le> byte c \<and> byte c \<le> 57) \<and> \<not> (97 \<le> lower c \<and> lower c \<le> 122)
        then Inl NumErrSyntax
      else
        (let d = (if 48 \<le> byte c \<and> byte c \<le> 57 then byte c - 48 else lower c - 97 + 10) in
         if base \<le> d then Inl NumErrSyntax
         else if maxUint64 div base + 1 \<le> n then Inl NumErrRange
         else
           (let m = n * base; n1 = (m + d) mod (maxUint64 + 1) in
            if n1 < m \<or> maxUint64 < n1 then Inl NumErrRange else Inr n1)))"

fun digits :: "bool \<Rightarrow> int \<Rightarrow> string \<Rightarrow> int \<Rightarrow> bool \<Rightarrow> error + (int \<times> bool)" where
  "digits base0 base [] n us = Inr (n, us)"
| "digits base0 base (c # cs) n us =
     (if c = CHR ''_'' \<and> base0 then digits base0 base cs n True
      else (case accumulate base n c of
              Inl err \<Rightarrow> Inl err
            | Inr n1 \<Rightarrow> digits base0 base cs n1 us))"

text \<open>
  \<^verbatim>\<open>underscoreOK\<close>: underscores only between digits or between the base prefix and a
  digit. \<open>saw\<close> is the last byte class seen: \<open>CHR ''^''\<close>, \<open>CHR ''0''\<close>, \<open>CHR ''_''\<close>
  or \<open>CHR ''!''\<close>; \<open>sawNext\<close> is one round of its loop (\<open>None\<close>: return false).
\<close>

definition sawNext :: "bool \<Rightarrow> char \<Rightarrow> char \<Rightarrow> char option" where
  "sawNext hex saw c =
     (if (48 \<le> byte c \<and> byte c \<le> 57) \<or> (hex \<and> 97 \<le> lower c \<and> lower c \<le> 102)
        then Some (CHR ''0'')
      else if c = CHR ''_'' then (if saw \<noteq> CHR ''0'' then None else Some (CHR ''_''))
      else if saw = CHR ''_'' then None
      else Some (CHR ''!''))"

fun underscoreLoop :: "bool \<Rightarrow> char \<Rightarrow> string \<Rightarrow> bool" where
  "underscoreLoop hex saw [] = (saw \<noteq> CHR ''_'')"
| "underscoreLoop hex saw (c # cs) =
     (case sawNext hex saw c of None \<Rightarrow> False | Some saw' \<Rightarrow> underscoreLoop hex saw' cs)"

definition underscoreOK :: "string \<Rightarrow> bool" where
  "underscoreOK s0 =
     (let s = (case s0 of [] \<Rightarrow> []
                | c # cs \<Rightarrow> if c = CHR ''-'' \<or> c = CHR ''+'' then cs else s0) in
      case s of
        z # p # rest \<Rightarrow>
          if z = CHR ''0'' \<and> (lower p = 98 \<or> lower p = 111 \<or> lower p = 120)
          then underscoreLoop (lower p = 120) (CHR ''0'') rest
          else underscoreLoop False (CHR ''^'') s
      | _ \<Rightarrow> underscoreLoop False (CHR ''^'') s)"

text \<open>
  \<^verbatim>\<open>ParseUint(s, base, 64)\<close> for \<open>base = 0\<close> (the base is read off the prefix) and for
  \<open>2 \<le> base \<le> 36\<close>; the parser calls it with \<open>0\<close> and with \<open>10\<close>.
\<close>

definition basePrefix :: "string \<Rightarrow> int \<times> string" where
  "basePrefix s =
     (case s of
        z # p # q # rest \<Rightarrow>
          if z = CHR ''0'' then
            (if lower p = 98 then (2, q # rest)
             else if lower p = 111 then (8, q # rest)
             else if lower p = 120 then (16, q # rest)
             else (8, p # q # rest))
          else (10, s)
      | z # rest \<Rightarrow> if z = CHR ''0'' then (8, rest) else (10, s)
      | [] \<Rightarrow> (10, s))"

definition ParseUint :: "string \<Rightarrow> int \<Rightarrow> error + int" where
  "ParseUint s base =
     (if s = [] then Inl NumErrSyntax
      else
        (let (b, t) = (if base = 0 then basePrefix s else (base, s)) in
         case digits (base = 0) b t 0 False of
           Inl err \<Rightarrow> Inl err
         | Inr (n, us) \<Rightarrow> if us \<and> \<not> underscoreOK s then Inl NumErrSyntax else Inr n))"

text \<open>
  \<^verbatim>\<open>strconv.Atoi\<close>: an optional sign and decimal digits. Strings shorter than 19
  bytes take Go's fast path (no range check is needed); longer ones go through
  \<^verbatim>\<open>ParseInt(s, 10, 0)\<close>, whose magnitude is limited to the 64-bit \<^verbatim>\<open>int\<close>.
\<close>

fun atoiLoop :: "string \<Rightarrow> int \<Rightarrow> error + int" where
  "atoiLoop [] n = Inr n"
| "atoiLoop (c # cs) n =
     (if 48 \<le> byte c \<and> byte c \<le> 57 then atoiLoop cs (n * 10 + (byte c - 48))
      else Inl NumErrSyntax)"

definition Atoi :: "string \<Rightarrow> error + int" where
  "Atoi s =
     (if s = [] then Inl NumErrSyntax
      else
        (let neg = (hd s = CHR ''-'');
             t = (if hd s = CHR ''-'' \<or> hd s = CHR ''+'' then tl s else s) in
         if t = [] then Inl NumErrSyntax
         else if length s < 19 then
           (case atoiLoop t 0 of Inl err \<Rightarrow> Inl err | Inr n \<Rightarrow> Inr (if neg then - n else n))
         else
           (case ParseUint t 10 of
              Inl err \<Rightarrow> Inl err
            | Inr n \<Rightarrow>
                if \<not> neg \<and> 9223372036854775808 \<le> n then Inl NumErrRange
                else if neg \<and> 9223372036854775808 < n then Inl NumErrRange
                else Inr (if neg then - n else n))))"

subsection \<open>Go's \<^verbatim>\<open>time\<close> package: instants, civil dates, \<^verbatim>\<open>Date\<close>, \<^verbatim>\<open>AddDate\<close>\<close>

text \<open>
  A \<^verbatim>\<open>time.Time\<close> is an instant (seconds since 1970-01-01T00:00:00 UTC and
  nanoseconds within the second) together with the location it is shown in. A
  \<^verbatim>\<open>*time.Location\<close> is modelled by its offset east of UTC in seconds, that is, as a
  fixed zone (\<^verbatim>\<open>time.UTC\<close> is \<open>0\<close>); zones whose offset changes over the year are
  outside the model. Years are mathematical integers (the proleptic Gregorian
  calendar); the overflow of Go's 64-bit seconds is not modelled.
\<close>

type_synonym Location = int

definition UTC :: Location where
  "UTC = 0"

record Time =
  unix :: int
  nsec :: int
  zone :: Location

text \<open>The zero \<^verbatim>\<open>Time{}\<close>: January 1, year 1, 00:00:00 UTC.\<close>

definition zeroTime :: Time where
  "zeroTime = \<lparr>unix = - 62135596800, nsec = 0, zone = UTC\<rparr>"

definition isLeap :: "int \<Rightarrow> bool" where
  "isLeap year = (year mod 4 = 0 \<and> (year mod 100 \<noteq> 0 \<or> year mod 400 = 0))"

text \<open>\<^verbatim>\<open>daysBefore[m]\<close>: the days of a non-leap year before month \<open>m + 1\<close>.\<close>

definition daysBefore :: "int list" where
  "daysBefore = [0, 31, 59, 90, 120, 151, 181, 212, 243, 273, 304, 334, 365]"

text \<open>
  The days of a year before its month \<open>month\<close> (\<open>1\<close> to \<open>13\<close>; \<open>13\<close> gives the length of
  the year).
\<close>

definition daysBeforeMonth :: "int \<Rightarrow> int \<Rightarrow> int" where
  "daysBeforeMonth year month =
     daysBefore ! nat (month - 1) + (if isLeap year \<and> 3 \<le> month then 1 else 0)"

definition daysIn :: "int \<Rightarrow> int \<Rightarrow> int" where
  "daysIn month year =
     (if month = 2 \<and> isLeap year then 29
      else daysBefore ! nat month - daysBefore ! nat (month - 1))"

text \<open>Days from 1970-01-01 to January 1 of \<open>year\<close>.\<close>

definition daysSinceEpoch :: "int \<Rightarrow> int" where
  "daysSinceEpoch year =
     (let y = year - 1 in 365 * y + y div 4 - y div 100 + y div 400 - 719162)"

text \<open>
  \<^verbatim>\<open>time.Date\<close>: the month is normalised into the year; days, hours, minutes and
  seconds beyond their range carry over, which is linear in the count of seconds;
  nanoseconds carry into the seconds.
\<close>

definition Date :: "int \<Rightarrow> int \<Rightarrow> int \<Rightarrow> int \<Rightarrow> int \<Rightarrow> int \<Rightarrow> int \<Rightarrow> Location \<Rightarrow> Time" where
  "Date year month day hour minute sec ns loc =
     (let y = year + (month - 1) div 12;
          m = (month - 1) mod 12 + 1;
          d = daysSinceEpoch y + daysBeforeMonth y m + (day - 1);
          s = sec + ns div 1000000000
      in \<lparr>unix = d * 86400 + hour * 3600 + minute * 60 + s - loc,
          nsec = ns mod 1000000000,
          zone = loc\<rparr>)"

text \<open>
  The civil date of a day count (days since 1970-01-01), as \<^verbatim>\<open>Time.Date\<close> computes
  it: whole 400-year, 100-year, 4-year cycles and years are cut off in turn; the
  last century of a 400-year cycle and the last year of a 4-year cycle are one day
  longer, hence the bound \<open>3\<close>.
\<close>

definition yearDay :: "int \<Rightarrow> int \<times> int" where
  "yearDay days =
     (let z = days + 719162;
          n400 = z div 146097;
          r400 = z mod 146097;
          n100 = min 3 (r400 div 36524);
          r100 = r400 - 36524 * n100;
          n4 = r100 div 1461;
          r4 = r100 mod 1461;
          n1 = min 3 (r4 div 365);
          yday = r4 - 365 * n1
      in (400 * n400 + 100 * n100 + 4 * n4 + n1 + 1, yday))"

fun monthOf :: "int \<Rightarrow> int \<Rightarrow> nat \<Rightarrow> int" where
  "monthOf year yday 0 = 1"
| "monthOf year yday (Suc k) =
     (if daysBeforeMonth year (int (Suc k) + 1) \<le> yday then int (Suc k) + 1
      else monthOf year yday k)"

text \<open>\<open>civil days\<close> is \<open>(year, month, day)\<close>; \<open>monthOf year yday 11\<close> is the month of
  the day \<open>yday\<close> (from \<open>0\<close>) of the year.\<close>

definition civil :: "int \<Rightarrow> int \<times> int \<times> int" where
  "civil days =
     (let (year, yday) = yearDay days;
          month = monthOf year yday 11
      in (year, month, yday - daysBeforeMonth year month + 1))"

text \<open>The seconds of the instant on the clock of its location.\<close>

definition wall :: "Time \<Rightarrow> int" where
  "wall t = unix t + zone t"

definition dateOf :: "Time \<Rightarrow> int \<times> int \<times> int" where
  "dateOf t = civil (wall t div 86400)"

definition yearOf :: "Time \<Rightarrow> int" where
  "yearOf t = fst (dateOf t)"

definition clockOf :: "Time \<Rightarrow> int \<times> int \<times> int" where
  "clockOf t =
     (let s = wall t mod 86400 in (s div 3600, (s mod 3600) div 60, s mod 60))"

definition AddDate :: "Time \<Rightarrow> int \<Rightarrow> int \<Rightarrow> int \<Rightarrow> Time" where
  "AddDate t years months days =
     (let (year, month, day) = dateOf t;
          (hour, minute, sec) = clockOf t
      in Date (year + years) (month + months) (day + days) hour minute sec (nsec t) (zone t))"

definition Before :: "Time \<Rightarrow> Time \<Rightarrow> bool" where
  "Before t u = (unix t < unix u \<or> (unix t = unix u \<and> nsec t < nsec u))"

subsection \<open>\<^verbatim>\<open>time.ParseInLocation\<close> for the layouts of the parser\<close>

text \<open>
  A layout is the list of its chunks, as \<^verbatim>\<open>nextStdChunk\<close> cuts it: literal text and
  the standard elements. The layouts of \<^verbatim>\<open>parse.go\<close> use these elements only:
  \<^verbatim>\<open>2006\<close>, \<^verbatim>\<open>06\<close>, \<^verbatim>\<open>01\<close>, \<^verbatim>\<open>Jan\<close>, \<^verbatim>\<open>02\<close>, \<^verbatim>\<open>_2\<close>, \<^verbatim>\<open>15\<close>, \<^verbatim>\<open>03\<close>,
  \<^verbatim>\<open>04\<close>, \<^verbatim>\<open>05\<close> and \<^verbatim>\<open>PM\<close>.
\<close>

datatype chunk =
    Lit string
  | StdLongYear
  | StdYear
  | StdZeroMonth
  | StdMonth
  | StdZeroDay
  | StdUnderDay
  | StdHour
  | StdZeroHour12
  | StdZeroMinute
  | StdZeroSecond
  | StdPM

text \<open>\<^verbatim>\<open>"20060102150405"\<close>, the layout of the \<^verbatim>\<open>modify\<close> fact.\<close>

definition layoutModify :: "chunk list" where
  "layoutModify =
     [StdLongYear, StdZeroMonth, StdZeroDay, StdHour, StdZeroMinute, StdZeroSecond]"

text \<open>\<^verbatim>\<open>"_2 Jan 2006 15:04"\<close>, the layout of \<^verbatim>\<open>setTime\<close>.\<close>

definition layoutLs :: "chunk list" where
  "layoutLs =
     [StdUnderDay, Lit '' '', StdMonth, Lit '' '', StdLongYear, Lit '' '', StdHour,
      Lit '':'', StdZeroMinute]"

text \<open>
  \<^verbatim>\<open>dirTimeFormats\<close>: each format with its length in bytes, in the order of the
  source: \<^verbatim>\<open>"01-02-06  03:04PM"\<close>, \<^verbatim>\<open>"2006-01-02  15:04"\<close>,
  \<^verbatim>\<open>"01-02-2006  03:04PM"\<close>, \<^verbatim>\<open>"01-02-2006  15:04"\<close>.
\<close>

definition dirTimeFormats :: "(int \<times> chunk list) list" where
  "dirTimeFormats =
     [(17, [StdZeroMonth, Lit ''-'', StdZeroDay, Lit ''-'', StdYear, Lit ''  '',
            StdZeroHour12, Lit '':'', StdZeroMinute, StdPM]),
      (17, [StdLongYear, Lit ''-'', StdZeroMonth, Lit ''-'', StdZeroDay, Lit ''  '',
            StdHour, Lit '':'', StdZeroMinute]),
      (19, [StdZeroMonth, Lit ''-'', StdZeroDay, Lit ''-'', StdLongYear, Lit ''  '',
            StdZeroHour12, Lit '':'', StdZeroMinute, StdPM]),
      (17, [StdZeroMonth, Lit ''-'', StdZeroDay, Lit ''-'', StdLongYear, Lit ''  '',
            StdHour, Lit '':'', StdZeroMinute])]"

definition isDigit :: "string \<Rightarrow> nat \<Rightarrow> bool" where
  "isDigit s i = (i < length s \<and> 48 \<le> byte (s ! i) \<and> byte (s ! i) \<le> 57)"

definition cutspace :: "string \<Rightarrow> string" where
  "cutspace s = dropWhile (\<lambda>c. c = CHR '' '') s"

text \<open>
  \<^verbatim>\<open>skip(value, prefix)\<close>: the literal text of the layout is consumed from the value;
  a run of spaces in the layout matches any run of spaces in the value, also none at
  the end of the value.
\<close>

function skip :: "string \<Rightarrow> string \<Rightarrow> string option" where
  "skip v [] = Some v"
| "skip v (p # ps) =
     (if p = CHR '' '' then
        (if v \<noteq> [] \<and> hd v \<noteq> CHR '' '' then None
         else skip (cutspace v) (cutspace (p # ps)))
      else (case v of
              [] \<Rightarrow> None
            | c # cs \<Rightarrow> if c \<noteq> p then None else skip cs ps))"
  by pat_completeness auto
termination
proof (relation "measure (\<lambda>(v, p). length p)")
  show "wf (measure (\<lambda>(v, p). length p))"
    by simp
next
  fix v :: string and p :: char and ps :: string
  assume "p = CHR '' ''"
  then have "length (cutspace (p # ps)) \<le> length ps"
    by (simp add: cutspace_def length_dropWhile_le)
  then show "((cutspace v, cutspace (p # ps)), (v, p # ps)) \<in> measure (\<lambda>(v, p). length p)"
    by simp
next
  fix v :: string and p :: char and ps :: string and c :: char and cs :: string
  show "((cs, ps), (v, p # ps)) \<in> measure (\<lambda>(v, p). length p)"
    by simp
qed

text \<open>\<^verbatim>\<open>getnum(s, fixed)\<close>: one or two digits; exactly two when \<open>fixed\<close>.\<close>

definition getnum :: "string \<Rightarrow> bool \<Rightarrow> (int \<times> string) option" where
  "getnum s fixed =
     (if \<not> isDigit s 0 then None
      else if \<not> isDigit s 1 then
        (if fixed then None else Some (byte (s ! 0) - 48, drop 1 s))
      else Some ((byte (s ! 0) - 48) * 10 + (byte (s ! 1) - 48), drop 2 s))"

text \<open>
  \<^verbatim>\<open>atoi\<close> of the time package on a short string: an optional sign, then digits up
  to the end.
\<close>

definition timeAtoi :: "string \<Rightarrow> int option" where
  "timeAtoi s =
     (let neg = (s \<noteq> [] \<and> hd s = CHR ''-'');
          t = (if s \<noteq> [] \<and> (hd s = CHR ''-'' \<or> hd s = CHR ''+'') then tl s else s)
      in case atoiLoop t 0 of
           Inl err \<Rightarrow> None
         | Inr n \<Rightarrow> Some (if neg then - n else n))"

text \<open>
  \<^verbatim>\<open>lookup(shortMonthNames, val)\<close>: the first three bytes against the month names,
  letters compared without case (\<^verbatim>\<open>match\<close>).
\<close>

definition shortMonthNames :: "string list" where
  "shortMonthNames =
     [''Jan'', ''Feb'', ''Mar'', ''Apr'', ''May'', ''Jun'',
      ''Jul'', ''Aug'', ''Sep'', ''Oct'', ''Nov'', ''Dec'']"

definition matchByte :: "char \<Rightarrow> char \<Rightarrow> bool" where
  "matchByte c1 c2 =
     (c1 = c2 \<or> (lower c1 = lower c2 \<and> 97 \<le> lower c1 \<and> lower c1 \<le> 122))"

definition match :: "string \<Rightarrow> string \<Rightarrow> bool" where
  "match s1 s2 = list_all2 matchByte s1 s2"

fun lookup :: "string list \<Rightarrow> string \<Rightarrow> int \<Rightarrow> (int \<times> string) option" where
  "lookup [] val i = None"
| "lookup (v # tab) val i =
     (if length v \<le> length val \<and> match (take (length v) val) v
      then Some (i, drop (length v) val)
      else lookup tab val (i + 1))"

text \<open>
  The fields that \<^verbatim>\<open>Parse\<close> collects. All layouts of the parser name year, month
  and day, so the defaults of the missing ones are never used.
\<close>

record parsed =
  pYear :: int
  pMonth :: int
  pDay :: int
  pHour :: int
  pMin :: int
  pSec :: int
  pNsec :: int
  pmSet :: bool
  amSet :: bool

definition parsed0 :: parsed where
  "parsed0 = \<lparr>pYear = 0, pMonth = - 1, pDay = - 1, pHour = 0, pMin = 0, pSec = 0,
     pNsec = 0, pmSet = False, amSet = False\<rparr>"

text \<open>
  The fractional second that may follow \<^verbatim>\<open>05\<close> when the layout has none: a period
  or comma and digits; the first nine digits are the nanoseconds.
\<close>

definition fraction :: "string \<Rightarrow> (int \<times> string) option" where
  "fraction v =
     (if 2 \<le> length v \<and> (hd v = CHR ''.'' \<or> hd v = CHR '','') \<and> isDigit v 1 then
        (let ds = takeWhile (\<lambda>c. 48 \<le> byte c \<and> byte c \<le> 57) (tl v);
             ds9 = take 9 ds
         in case atoiLoop ds9 0 of
              Inl err \<Rightarrow> None
            | Inr n \<Rightarrow> Some (n * 10 ^ (9 - length ds9), drop (length ds) (tl v)))
      else Some (0, v))"

text \<open>
  One standard element of the layout, applied to the rest of the value.
  \<open>None\<close> is a \<^verbatim>\<open>ParseError\<close> (a malformed or an out-of-range element).
\<close>

definition element :: "chunk \<Rightarrow> string \<Rightarrow> parsed \<Rightarrow> (string \<times> parsed) option" where
  "element std v st =
     (case std of
        Lit p \<Rightarrow> (case skip v p of None \<Rightarrow> None | Some v' \<Rightarrow> Some (v', st))
      | StdLongYear \<Rightarrow>
          if length v < 4 \<or> \<not> isDigit v 0 then None
          else (case timeAtoi (take 4 v) of
                  None \<Rightarrow> None
                | Some y \<Rightarrow> Some (drop 4 v, st\<lparr>pYear := y\<rparr>))
      | StdYear \<Rightarrow>
          if length v < 2 then None
          else (case timeAtoi (take 2 v) of
                  None \<Rightarrow> None
                | Some y \<Rightarrow>
                    Some (drop 2 v, st\<lparr>pYear := (if 69 \<le> y then y + 1900 else y + 2000)\<rparr>))
      | StdZeroMonth \<Rightarrow>
          (case getnum v True of
             None \<Rightarrow> None
           | Some (m, v') \<Rightarrow>
               if m \<le> 0 \<or> 12 < m then None else Some (v', st\<lparr>pMonth := m\<rparr>))
      | StdMonth \<Rightarrow>
          (case lookup shortMonthNames v 0 of
             None \<Rightarrow> None
           | Some (m, v') \<Rightarrow> Some (v', st\<lparr>pMonth := m + 1\<rparr>))
      | StdZeroDay \<Rightarrow>
          (case getnum v True of
             None \<Rightarrow> None
           | Some (d, v') \<Rightarrow> Some (v', st\<lparr>pDay := d\<rparr>))
      | StdUnderDay \<Rightarrow>
          (case getnum (if v \<noteq> [] \<and> hd v = CHR '' '' then tl v else v) False of
             None \<Rightarrow> None
           | Some (d, v') \<Rightarrow> Some (v', st\<lparr>pDay := d\<rparr>))
      | StdHour \<Rightarrow>
          (case getnum v False of
             None \<Rightarrow> None
           | Some (h, v') \<Rightarrow>
               if h < 0 \<or> 24 \<le> h then None else Some (v', st\<lparr>pHour := h\<rparr>))
      | StdZeroHour12 \<Rightarrow>
          (case getnum v True of
             None \<Rightarrow> None
           | Some (h, v') \<Rightarrow>
               if h < 0 \<or> 12 < h then None else Some (v', st\<lparr>pHour := h\<rparr>))
      | StdZeroMinute \<Rightarrow>
          (case getnum v True of
             None \<Rightarrow> None
           | Some (m, v') \<Rightarrow>
               if m < 0 \<or> 60 \<le> m then None else Some (v', st\<lparr>pMin := m\<rparr>))
      | StdZeroSecond \<Rightarrow>
          (case getnum v True of
             None \<Rightarrow> None
           | Some (s, v') \<Rightarrow>
               if s < 0 \<or> 60 \<le> s then None
               else (case fraction v' of
                       None \<Rightarrow> None
                     | Some (ns, v'') \<Rightarrow> Some (v'', st\<lparr>pSec := s, pNsec := ns\<rparr>)))
      | StdPM \<Rightarrow>
          if length v < 2 then None
          else if take 2 v = ''PM'' then Some (drop 2 v, st\<lparr>pmSet := True\<rparr>)
          else if take 2 v = ''AM'' then Some (drop 2 v, st\<lparr>amSet := True\<rparr>)
          else None)"

fun elements :: "chunk list \<Rightarrow> string \<Rightarrow> parsed \<Rightarrow> parsed option" where
  "elements [] v st = (if v = [] then Some st else None)"
| "elements (std # layout) v st =
     (case element std v st of
        None \<Rightarrow> None
      | Some (v', st') \<Rightarrow> elements layout v' st')"

text \<open>
  \<^verbatim>\<open>time.ParseInLocation(layout, value, loc)\<close>: the elements, the 12-hour
  correction, the check of the day against the month, and \<^verbatim>\<open>Date\<close>.
\<close>

definition ParseInLocation :: "chunk list \<Rightarrow> string \<Rightarrow> Location \<Rightarrow> error + Time" where
  "ParseInLocation layout v loc =
     (case elements layout v parsed0 of
        None \<Rightarrow> Inl TimeParseError
      | Some st \<Rightarrow>
          (let hour = (if pmSet st \<and> pHour st < 12 then pHour st + 12
                       else if amSet st \<and> pHour st = 12 then 0
                       else pHour st)
           in if pDay st < 1 \<or> daysIn (pMonth st) (pYear st) < pDay st
              then Inl TimeParseError
              else Inr (Date (pYear st) (pMonth st) (pDay st) hour (pMin st) (pSec st)
                          (pNsec st) loc)))"

subsection \<open>\<^verbatim>\<open>fmt.Sprintf\<close> with \<^verbatim>\<open>%d\<close>\<close>

definition digitChar :: "int \<Rightarrow> char" where
  "digitChar d = ''0123456789'' ! nat d"

function decimal :: "int \<Rightarrow> string" where
  "decimal n = (if n < 10 then [digitChar n] else decimal (n div 10) @ [digitChar (n mod 10)])"
  by pat_completeness auto
termination
  by (relation "measure nat") auto

text \<open>\<^verbatim>\<open>%d\<close>: a minus sign for a negative number, then the decimal digits.\<close>

definition itoa :: "int \<Rightarrow> string" where
  "itoa n = (if n < 0 then CHR ''-'' # decimal (- n) else decimal n)"

subsection \<open>The record model: \<^verbatim>\<open>Entry\<close> and \<^verbatim>\<open>EntryType\<close>\<close>

text \<open>
  Modelled from the spec: the declarations of \<^verbatim>\<open>Entry\<close> and \<^verbatim>\<open>EntryType\<close> are
  not in \<^verbatim>\<open>parse.go\<close>. The spec's data model gives the entry a name, a target, an
  unsigned size, a type and a time, and the entry type three variants; \<^verbatim>\<open>parse.go\<close>
  names them \<^verbatim>\<open>EntryTypeFile\<close>, \<^verbatim>\<open>EntryTypeFolder\<close> and \<^verbatim>\<open>EntryTypeLink\<close>. The
  composite literal \<^verbatim>\<open>&Entry{}\<close> is \<open>emptyEntry\<close>; its type is the first variant, as
  the tests of the fact-list dialect expect for a line without a \<^verbatim>\<open>type\<close> fact.
\<close>

datatype EntryType = EntryTypeFile | EntryTypeFolder | EntryTypeLink

record Entry =
  Name :: string
  Target :: string
  Type :: EntryType
  Size :: int
  Time :: Time

definition emptyEntry :: Entry where
  "emptyEntry = \<lparr>Name = [], Target = [], Type = EntryTypeFile, Size = 0, Time = zeroTime\<rparr>"

subsection \<open>The token scanner\<close>

text \<open>
  Modelled from the spec: the scanner (\<^verbatim>\<open>newScanner\<close>, \<^verbatim>\<open>Next\<close>, \<^verbatim>\<open>NextFields\<close>,
  \<^verbatim>\<open>Remaining\<close>) is not in \<^verbatim>\<open>parse.go\<close>. Following the spec, \<open>Next\<close> returns the
  next token delimited by blanks and the empty string when the line is exhausted,
  \<open>NextFields n\<close> returns up to \<open>n\<close> tokens by repeated \<open>Next\<close> and fewer when the
  line is exhausted, and \<open>Remaining\<close> returns the rest of the line verbatim. The
  state of a scanner is the unread rest of the line. The delimiter is the blank
  \<open>CHR '' ''\<close>, the byte with which the recognizers themselves find the end of the
  first field. \<open>Next\<close> skips the blanks before the token and consumes the one
  blank that ends it; further blanks are skipped by the following \<open>Next\<close>. That is
  what the repository's test table fixes: the line
  \<^verbatim>\<open>-rwxr-xr-x    3 110      1002            1234567 Dec 02  2009  foo bar \<close>, with two
  blanks after the year, has the name \<^verbatim>\<open>" foo bar "\<close> (with its leading blank).
\<close>

type_synonym scanner = string

definition newScanner :: "string \<Rightarrow> scanner" where
  "newScanner str = str"

definition Next :: "scanner \<Rightarrow> string \<times> scanner" where
  "Next s =
     (let t = dropWhile (\<lambda>c. c = CHR '' '') s
      in (takeWhile (\<lambda>c. c \<noteq> CHR '' '') t, drop 1 (dropWhile (\<lambda>c. c \<noteq> CHR '' '') t)))"

fun NextFields :: "nat \<Rightarrow> scanner \<Rightarrow> string list \<times> scanner" where
  "NextFields 0 s = ([], s)"
| "NextFields (Suc n) s =
     (case Next s of
        (field, s') \<Rightarrow>
          if field = [] then ([], s')
          else (case NextFields n s' of (flds, s'') \<Rightarrow> (field # flds, s'')))"

definition Remaining :: "scanner \<Rightarrow> string" where
  "Remaining s = s"

subsection \<open>The setters \<^verbatim>\<open>setSize\<close> and \<^verbatim>\<open>setTime\<close>\<close>

text \<open>
  Both setters assign to the entry and return an error; every caller drops the entry
  when the error is not nil, so the model returns either the error or the updated
  entry.
\<close>

definition setSize :: "Entry \<Rightarrow> string \<Rightarrow> error + Entry" where
  "setSize e str =
     (case ParseUint str 0 of
        Inl err \<Rightarrow> Inl err
      | Inr n \<Rightarrow> Inr (e\<lparr>Size := n\<rparr>))"

definition setTime :: "Entry \<Rightarrow> string list \<Rightarrow> Time \<Rightarrow> Location \<Rightarrow> error + Entry" where
  "setTime e flds now loc =
     (if length flds < 3 then Inl Panic
      else if Contains (flds ! 2) '':'' then
        (let thisYear = yearOf now;
             timeStr = flds ! 1 @ '' '' @ flds ! 0 @ '' '' @ itoa thisYear @ '' '' @ flds ! 2
         in case ParseInLocation layoutLs timeStr loc of
              Inl err \<Rightarrow> Inl err
            | Inr t \<Rightarrow>
                if \<not> Before t (AddDate now 0 6 0)
                then Inr (e\<lparr>Time := AddDate t (- 1) 0 0\<rparr>)
                else Inr (e\<lparr>Time := t\<rparr>))
      else
        (if length (flds ! 2) \<noteq> 4 then Inl ErrUnsupportedListDate
         else
           (let timeStr = flds ! 1 @ '' '' @ flds ! 0 @ '' '' @ flds ! 2 @ '' 00:00''
            in case ParseInLocation layoutLs timeStr loc of
                 Inl err \<Rightarrow> Inl err
               | Inr t \<Rightarrow> Inr (e\<lparr>Time := t\<rparr>))))"

subsection \<open>The fact-list recognizer (RFC 3659)\<close>

text \<open>One round of the loop over the facts: \<open>field\<close> is one piece between semicolons.\<close>

definition fact :: "string \<Rightarrow> Location \<Rightarrow> Entry \<Rightarrow> error + Entry" where
  "fact field loc e =
     (let i = Index field ''=''
      in if i < 1 then Inl ErrUnsupportedListLine
         else
           (case slice field 0 i of
              Inl err \<Rightarrow> Inl err
            | Inr k \<Rightarrow>
                (case slice field (i + 1) (len field) of
                   Inl err \<Rightarrow> Inl err
                 | Inr val \<Rightarrow>
                     (let key = ToLower k
                      in if key = ''modify'' then
                           (case ParseInLocation layoutModify val loc of
                              Inl err \<Rightarrow> Inl err
                            | Inr t \<Rightarrow> Inr (e\<lparr>Time := t\<rparr>))
                         else if key = ''type'' then
                           (if val = ''dir'' \<or> val = ''cdir'' \<or> val = ''pdir''
                              then Inr (e\<lparr>Type := EntryTypeFolder\<rparr>)
                            else if val = ''file'' then Inr (e\<lparr>Type := EntryTypeFile\<rparr>)
                            else Inr e)
                         else if key = ''size'' then setSize e val
                         else Inr e))))"

fun facts :: "string list \<Rightarrow> Location \<Rightarrow> Entry \<Rightarrow> error + Entry" where
  "facts [] loc e = Inr e"
| "facts (field # rest) loc e =
     (case fact field loc e of
        Inl err \<Rightarrow> Inl err
      | Inr e' \<Rightarrow> facts rest loc e')"

definition parseNextRFC3659ListLine :: "string \<Rightarrow> Location \<Rightarrow> Entry \<Rightarrow> error + Entry" where
  "parseNextRFC3659ListLine line loc e =
     (let iSemicolon = Index line '';'';
          iWhitespace = Index line '' ''
      in if iSemicolon < 0 \<or> iSemicolon > iWhitespace then Inl ErrUnsupportedListLine
         else
           (case slice line (iWhitespace + 1) (len line) of
              Inl err \<Rightarrow> Inl err
            | Inr name \<Rightarrow>
                if Name e \<noteq> [] \<and> Name e \<noteq> name then Inl ErrUnsupportedListLine
                else
                  (case slice line 0 (iWhitespace - 1) of
                     Inl err \<Rightarrow> Inl err
                   | Inr fs \<Rightarrow>
                       facts (Split fs (CHR '';'')) loc
                         (if Name e = [] then e\<lparr>Name := name\<rparr> else e))))"

definition parseRFC3659ListLine :: "string \<Rightarrow> Time \<Rightarrow> Location \<Rightarrow> error + Entry" where
  "parseRFC3659ListLine line now loc = parseNextRFC3659ListLine line loc emptyEntry"

subsection \<open>The Unix \<^verbatim>\<open>ls\<close> recognizer\<close>

text \<open>
  The last part of \<^verbatim>\<open>parseLsListLine\<close>: the switch on the first byte of the mode
  field, for an entry \<open>e\<close> that holds the name, and the date of the fields 5 to 7.
\<close>

definition lsGeneric :: "string list \<Rightarrow> Entry \<Rightarrow> Time \<Rightarrow> Location \<Rightarrow> error + Entry" where
  "lsGeneric flds e now loc =
     (if flds ! 0 = [] then Inl Panic
      else
        (let c = hd (flds ! 0);
             typed =
               (if c = CHR ''-'' then setSize (e\<lparr>Type := EntryTypeFile\<rparr>) (flds ! 4)
                else if c = CHR ''d'' then Inr (e\<lparr>Type := EntryTypeFolder\<rparr>)
                else if c = CHR ''l'' then
                  (let i = Index (Name e) '' -> ''
                   in if 0 < i then
                        (case slice (Name e) (i + 4) (len (Name e)) of
                           Inl err \<Rightarrow> Inl err
                         | Inr target \<Rightarrow>
                             (case slice (Name e) 0 i of
                                Inl err \<Rightarrow> Inl err
                              | Inr name \<Rightarrow>
                                  Inr (e\<lparr>Type := EntryTypeLink, Target := target, Name := name\<rparr>)))
                      else Inr (e\<lparr>Type := EntryTypeLink\<rparr>))
                else Inl ErrUnknownListEntryType)
         in case typed of
              Inl err \<Rightarrow> Inl err
            | Inr e' \<Rightarrow> setTime e' (take 3 (drop 5 flds)) now loc))"

definition parseLsListLine :: "string \<Rightarrow> Time \<Rightarrow> Location \<Rightarrow> error + Entry" where
  "parseLsListLine line now loc =
     (let i = IndexByte line (CHR '' '')
      in if \<not> (i = 10 \<or> (i = 11 \<and> line ! 10 = CHR ''+'')) then Inl ErrUnsupportedListLine
         else
           (case NextFields 6 (newScanner line) of
              (flds, sc) \<Rightarrow>
                if length flds < 6 then Inl ErrUnsupportedListLine
                else if flds ! 1 = ''folder'' \<and> flds ! 2 = ''0'' then
                  setTime (emptyEntry\<lparr>Type := EntryTypeFolder, Name := Remaining sc\<rparr>)
                    (take 3 (drop 3 flds)) now loc
                else if flds ! 1 = ''0'' then
                  (case Next sc of
                     (field, sc') \<Rightarrow>
                       (case setSize (emptyEntry\<lparr>Type := EntryTypeFile, Name := Remaining sc'\<rparr>)
                               (flds ! 2) of
                          Inl err \<Rightarrow> Inl ErrUnsupportedListLine
                        | Inr e \<Rightarrow> setTime e (take 3 (drop 4 (flds @ [field]))) now loc))
                else
                  (case NextFields 2 sc of
                     (extra, sc') \<Rightarrow>
                       if length (flds @ extra) < 8 then Inl ErrUnsupportedListLine
                       else lsGeneric (flds @ extra) (emptyEntry\<lparr>Name := Remaining sc'\<rparr>) now loc)))"

subsection \<open>The MS-DOS \<^verbatim>\<open>DIR\<close> recognizer\<close>

text \<open>
  The loop over \<^verbatim>\<open>dirTimeFormats\<close>. Its state is the time of the entry, the last
  error (\<open>None\<close> is \<^verbatim>\<open>nil\<close>) and the line; a format that is not shorter than the line
  is passed over and leaves the state as it is, a failed parse stores the zero time
  and its error, and the first successful parse ends the loop.
\<close>

fun dirTime ::
  "(int \<times> chunk list) list \<Rightarrow> Location \<Rightarrow> Time \<times> error option \<times> string \<Rightarrow>
   Time \<times> error option \<times> string" where
  "dirTime [] loc st = st"
| "dirTime ((n, format) # rest) loc (t, err, line) =
     (if n < len line then
        (case ParseInLocation format (take (nat n) line) loc of
           Inl err' \<Rightarrow> dirTime rest loc (zeroTime, Some err', line)
         | Inr t' \<Rightarrow> (t', None, drop (nat n) line))
      else dirTime rest loc (t, err, line))"

definition parseDirListLine :: "string \<Rightarrow> Time \<Rightarrow> Location \<Rightarrow> error + Entry" where
  "parseDirListLine line0 now loc =
     (case dirTime dirTimeFormats loc (zeroTime, None, line0) of
        (t, err, line1) \<Rightarrow>
          if err \<noteq> None then Inl ErrUnsupportedListLine
          else
            (let e = emptyEntry\<lparr>Time := t\<rparr>;
                 line = TrimLeft line1 (CHR '' '')
             in if HasPrefix line ''<DIR>'' then
                  Inr (e\<lparr>Type := EntryTypeFolder,
                          Name := TrimLeft (TrimPrefix line ''<DIR>'') (CHR '' '')\<rparr>)
                else
                  (let space = Index line '' ''
                   in if space = - 1 then Inl ErrUnsupportedListLine
                      else
                        (case slice line 0 space of
                           Inl err \<Rightarrow> Inl err
                         | Inr tok \<Rightarrow>
                             (case ParseUint tok 10 of
                                Inl err \<Rightarrow> Inl ErrUnsupportedListLine
                              | Inr n \<Rightarrow>
                                  (case slice line space (len line) of
                                     Inl err \<Rightarrow> Inl err
                                   | Inr rest \<Rightarrow>
                                       Inr (e\<lparr>Size := n, Type := EntryTypeFile,
                                               Name := TrimLeft rest (CHR '' '')\<rparr>)))))))"

subsection \<open>The hostedftp.com recognizer\<close>

definition parseHostedFTPLine :: "string \<Rightarrow> Time \<Rightarrow> Location \<Rightarrow> error + Entry" where
  "parseHostedFTPLine line now loc =
     (if IndexByte line (CHR '' '') \<noteq> 10 then Inl ErrUnsupportedListLine
      else
        (case NextFields 2 (newScanner line) of
           (flds, sc) \<Rightarrow>
             if length flds < 2 \<or> flds ! 1 \<noteq> ''0'' then Inl ErrUnsupportedListLine
             else parseLsListLine (flds ! 0 @ '' 1 '' @ Remaining sc) now loc))"

subsection \<open>The IBM recognizer\<close>

text \<open>
  The six numbers of the date and the time, each \<^verbatim>\<open>strconv.Atoi\<close> of a two-byte
  slice, in the order of the source: day, month, year, hour, minute, second. The
  first failure is returned.
\<close>

fun atois :: "string list \<Rightarrow> error + int list" where
  "atois [] = Inr []"
| "atois (s # ss) =
     (case Atoi s of
        Inl err \<Rightarrow> Inl err
      | Inr n \<Rightarrow> (case atois ss of Inl err \<Rightarrow> Inl err | Inr ns \<Rightarrow> Inr (n # ns)))"

definition parseIbmListLine :: "string \<Rightarrow> Time \<Rightarrow> Location \<Rightarrow> error + Entry" where
  "parseIbmListLine line now loc =
     (case Next (newScanner line) of (owner, sc1) \<Rightarrow>
      if owner = [] then Inl ErrUnsupportedListLine else
      (case Next sc1 of (sizeStr, sc2) \<Rightarrow>
       if sizeStr = [] then Inl ErrUnsupportedListLine else
       (case Next sc2 of (dateStr, sc3) \<Rightarrow>
        if dateStr = [] \<or> length dateStr \<noteq> 8 then Inl ErrUnsupportedListLine else
        (case Next sc3 of (timeStr, sc4) \<Rightarrow>
         if timeStr = [] \<or> length timeStr \<noteq> 8 then Inl ErrUnsupportedListLine else
         (case Next sc4 of (fileType, sc5) \<Rightarrow>
          if fileType = [] then Inl ErrUnsupportedListLine else
          (let path = TrimLeft (Remaining sc5) (CHR '' '')
           in if path = [] then Inl ErrUnsupportedListLine
              else
                (case ParseUint sizeStr 10 of
                   Inl err \<Rightarrow> Inl err
                 | Inr sz \<Rightarrow>
                     (case atois [take 2 dateStr, take 2 (drop 3 dateStr), take 2 (drop 6 dateStr),
                                  take 2 timeStr, take 2 (drop 3 timeStr), take 2 (drop 6 timeStr)] of
                        Inl err \<Rightarrow> Inl err
                      | Inr ns \<Rightarrow>
                          (let day = ns ! 0; month = ns ! 1; year = 2000 + ns ! 2;
                               hour = ns ! 3; minute = ns ! 4; sec = ns ! 5;
                               timestamp = Date year month day hour minute sec 0 loc;
                               entryType =
                                 (if fileType = ''*DIR'' then EntryTypeFolder else EntryTypeFile);
                               name =
                                 (if entryType = EntryTypeFolder \<and> HasSuffix path ''/''
                                  then take (length path - 1) path else path)
                           in Inr \<lparr>Name = name, Target = [], Type = entryType, Size = sz,
                                    Time = timestamp\<rparr>)))))))))"

subsection \<open>The dispatch chain\<close>

type_synonym parseFunc = "string \<Rightarrow> Time \<Rightarrow> Location \<Rightarrow> error + Entry"

definition listLineParsers :: "parseFunc list" where
  "listLineParsers =
     [parseRFC3659ListLine, parseLsListLine, parseDirListLine, parseHostedFTPLine,
      parseIbmListLine]"

text \<open>The loop of \<^verbatim>\<open>parseListLine\<close> over the recognizers that are left.\<close>

fun tryParsers :: "parseFunc list \<Rightarrow> string \<Rightarrow> Time \<Rightarrow> Location \<Rightarrow> error + Entry" where
  "tryParsers [] line now loc = Inl ErrUnsupportedListLine"
| "tryParsers (f # fs) line now loc =
     (let r = f line now loc
      in if r \<noteq> Inl ErrUnsupportedListLine then r else tryParsers fs line now loc)"

definition parseListLine :: "string \<Rightarrow> Time \<Rightarrow> Location \<Rightarrow> error + Entry" where
  "parseListLine line now loc = tryParsers listLineParsers line now loc"

section \<open>The model against the repository's tests\<close>

text \<open>
  The reference time of the repository's tests, \<^verbatim>\<open>newTime(2017, time.March, 10, 23, 00)\<close>.
  The lemmas below replay rows of the test tables on the model, one for each dialect
  and one for the scanner's treatment of blanks before the name.
\<close>

definition testNow :: Time where
  "testNow = Date 2017 3 10 23 0 0 0 UTC"

lemma test_ls_name_with_blanks:
  "parseListLine ''-rwxr-xr-x    3 110      1002            1234567 Dec 02  2009  foo bar ''
     testNow UTC =
   Inr \<lparr>Name = '' foo bar '', Target = [], Type = EntryTypeFile, Size = 1234567,
        Time = Date 2009 12 2 0 0 0 0 UTC\<rparr>"
  by code_simp

lemma test_ls_symlink:
  "parseListLine ''lrwxrwxrwx   1 root     other          7 Jan 25 00:17 bin -> usr/bin''
     testNow UTC =
   Inr \<lparr>Name = ''bin'', Target = ''usr/bin'', Type = EntryTypeLink, Size = 0,
        Time = Date 2017 1 25 0 17 0 0 UTC\<rparr>"
  by code_simp

lemma test_ls_folder_literal:
  "parseListLine ''drwxr-xr-x               folder        0 Aug 15 05:49 !!!-Tipp des Haus!''
     testNow UTC =
   Inr \<lparr>Name = ''!!!-Tipp des Haus!'', Target = [], Type = EntryTypeFolder, Size = 0,
        Time = Date 2017 8 15 5 49 0 0 UTC\<rparr>"
  by code_simp

lemma test_ls_zero_links:
  "parseListLine
     ''-rw-r--r--        0   18446744073709551615 18446744073709551615 Nov 16  2006 VIDEO_TS.VOB''
     testNow UTC =
   Inr \<lparr>Name = ''VIDEO_TS.VOB'', Target = [], Type = EntryTypeFile,
        Size = 18446744073709551615, Time = Date 2006 11 16 0 0 0 0 UTC\<rparr>"
  by code_simp

lemma test_ls_previous_year:
  "parseListLine ''d---------   1 owner    group               0 Nov  9 19:45 Softlib''
     testNow UTC =
   Inr \<lparr>Name = ''Softlib'', Target = [], Type = EntryTypeFolder, Size = 0,
        Time = Date 2016 11 9 19 45 0 0 UTC\<rparr>"
  by code_simp

lemma test_rfc3659:
  "parseListLine
     ''Modify=20150813175250;Perm=adfr;Size=951;Type=file;Unique=119FBB87UE;UNIX.owner=0; welcome.msg''
     testNow UTC =
   Inr \<lparr>Name = ''welcome.msg'', Target = [], Type = EntryTypeFile, Size = 951,
        Time = Date 2015 8 13 17 52 50 0 UTC\<rparr>"
  by code_simp

lemma test_dir:
  "parseListLine ''08-10-2015  02:04PM       <DIR>          Billing'' testNow UTC =
   Inr \<lparr>Name = ''Billing'', Target = [], Type = EntryTypeFolder, Size = 0,
        Time = Date 2015 8 10 14 4 0 0 UTC\<rparr>"
  by code_simp

lemma test_hostedftp:
  "parseListLine ''-r--------   0 user group     65222236 Feb 24 00:39 RegularFile''
     testNow UTC =
   Inr \<lparr>Name = ''RegularFile'', Target = [], Type = EntryTypeFile, Size = 65222236,
        Time = Date 2017 2 24 0 39 0 0 UTC\<rparr>"
  by code_simp

lemma test_ibm_file:
  "parseIbmListLine ''TSTITFECOM      21504 13/05/25 13:31:42 *STMF      114/POLL53.DWN''
     testNow UTC =
   Inr \<lparr>Name = ''114/POLL53.DWN'', Target = [], Type = EntryTypeFile, Size = 21504,
        Time = Date 2025 5 13 13 31 42 0 UTC\<rparr>"
  by code_simp

lemma test_unsupported:
  "parseListLine ''d [R----F--] supervisor            512       Jan 16 18:53 login''
     testNow UTC = Inl ErrUnsupportedListLine"
  "parseListLine ''total 1'' testNow UTC = Inl ErrUnsupportedListLine"
  "parseListLine ''000000000x '' testNow UTC = Inl ErrUnsupportedListLine"
  "parseListLine [] testNow UTC = Inl ErrUnsupportedListLine"
  "parseListLine ''drwxr-xr-x    3 110      1002            3 Dec 02  209 pub''
     testNow UTC = Inl ErrUnsupportedListDate"
  by code_simp+

section \<open>Properties\<close>

subsection \<open>The dispatch chain\<close>

text \<open>
  C2. The chain tries the recognizers in the order fact-list, Unix ls, DOS DIR,
  hostedftp, IBM. It goes on to the next recognizer exactly when the current one
  returns \<open>ErrUnsupportedListLine\<close>; the first other result, an entry or any other
  error, is the result of the chain; when all five return \<open>ErrUnsupportedListLine\<close>,
  so does the chain.
\<close>

theorem parseListLine_chain:
  "parseListLine line now loc =
     (if parseRFC3659ListLine line now loc \<noteq> Inl ErrUnsupportedListLine
        then parseRFC3659ListLine line now loc
      else if parseLsListLine line now loc \<noteq> Inl ErrUnsupportedListLine
        then parseLsListLine line now loc
      else if parseDirListLine line now loc \<noteq> Inl ErrUnsupportedListLine
        then parseDirListLine line now loc
      else if parseHostedFTPLine line now loc \<noteq> Inl ErrUnsupportedListLine
        then parseHostedFTPLine line now loc
      else if parseIbmListLine line now loc \<noteq> Inl ErrUnsupportedListLine
        then parseIbmListLine line now loc
      else Inl ErrUnsupportedListLine)"
  by (simp add: parseListLine_def listLineParsers_def Let_def)

subsection \<open>The IBM line of the spec\<close>

lemma wall_Date:
  "wall (Date year month day hour minute sec 0 loc) =
     (daysSinceEpoch (year + (month - 1) div 12)
        + daysBeforeMonth (year + (month - 1) div 12) ((month - 1) mod 12 + 1)
        + (day - 1)) * 86400 + hour * 3600 + minute * 60 + sec"
  by (simp add: wall_def Date_def Let_def)

lemma ibm_line_entry:
  "parseListLine ''OWNER 12288 13/05/25 13:26:12 *DIR .deleted/'' now loc =
     Inr \<lparr>Name = ''.deleted'', Target = [], Type = EntryTypeFolder, Size = 12288,
          Time = Date 2025 5 13 13 26 12 0 loc\<rparr>"
  by code_simp

lemma ibm_line_recognizers:
  "parseRFC3659ListLine ''OWNER 12288 13/05/25 13:26:12 *DIR .deleted/'' now loc
     = Inl ErrUnsupportedListLine"
  "parseLsListLine ''OWNER 12288 13/05/25 13:26:12 *DIR .deleted/'' now loc
     = Inl ErrUnsupportedListLine"
  "parseDirListLine ''OWNER 12288 13/05/25 13:26:12 *DIR .deleted/'' now loc
     = Inl ErrUnsupportedListLine"
  "parseHostedFTPLine ''OWNER 12288 13/05/25 13:26:12 *DIR .deleted/'' now loc
     = Inl ErrUnsupportedListLine"
  by code_simp+

lemma ibm_line_date: "dateOf (Date 2025 5 13 13 26 12 0 loc) = (2025, 5, 13)"
  unfolding dateOf_def wall_Date by code_simp

lemma ibm_line_clock: "clockOf (Date 2025 5 13 13 26 12 0 loc) = (13, 26, 12)"
  unfolding clockOf_def wall_Date by code_simp

text \<open>
  C7. The line \<^verbatim>\<open>OWNER 12288 13/05/25 13:26:12 *DIR .deleted/\<close> goes through the whole
  chain: the first four recognizers return \<open>ErrUnsupportedListLine\<close>, and the IBM
  recognizer returns the folder \<^verbatim>\<open>.deleted\<close> (without the trailing slash) of size
  12288, whose time is the 13th of May 2025, 13:26:12, on the clock of the caller's
  location, whatever the reference time and the location are.
\<close>

theorem ibm_line:
  "parseListLine ''OWNER 12288 13/05/25 13:26:12 *DIR .deleted/'' now loc =
     Inr \<lparr>Name = ''.deleted'', Target = [], Type = EntryTypeFolder, Size = 12288,
          Time = Date 2025 5 13 13 26 12 0 loc\<rparr>
   \<and> parseRFC3659ListLine ''OWNER 12288 13/05/25 13:26:12 *DIR .deleted/'' now loc
       = Inl ErrUnsupportedListLine
   \<and> parseLsListLine ''OWNER 12288 13/05/25 13:26:12 *DIR .deleted/'' now loc
       = Inl ErrUnsupportedListLine
   \<and> parseDirListLine ''OWNER 12288 13/05/25 13:26:12 *DIR .deleted/'' now loc
       = Inl ErrUnsupportedListLine
   \<and> parseHostedFTPLine ''OWNER 12288 13/05/25 13:26:12 *DIR .deleted/'' now loc
       = Inl ErrUnsupportedListLine
   \<and> parseIbmListLine ''OWNER 12288 13/05/25 13:26:12 *DIR .deleted/'' now loc =
       parseListLine ''OWNER 12288 13/05/25 13:26:12 *DIR .deleted/'' now loc
   \<and> dateOf (Date 2025 5 13 13 26 12 0 loc) = (2025, 5, 13)
   \<and> clockOf (Date 2025 5 13 13 26 12 0 loc) = (13, 26, 12)
   \<and> zone (Date 2025 5 13 13 26 12 0 loc) = loc"
proof -
  have "parseIbmListLine ''OWNER 12288 13/05/25 13:26:12 *DIR .deleted/'' now loc =
       parseListLine ''OWNER 12288 13/05/25 13:26:12 *DIR .deleted/'' now loc"
    by code_simp
  moreover have "zone (Date 2025 5 13 13 26 12 0 loc) = loc"
    by (simp add: Date_def Let_def)
  ultimately show ?thesis
    using ibm_line_entry ibm_line_recognizers ibm_line_date ibm_line_clock by simp
qed

subsection \<open>Lines shorter than the DOS date formats\<close>

text \<open>
  C5. On the line \<^verbatim>\<open><DIR> pub\<close> none of the four date formats parses the prefix of the
  line (the line is shorter than each of them, so the loop tries none, and none would
  parse it), and yet the DOS recognizer returns an entry: the folder \<^verbatim>\<open>pub\<close> with the
  zero time. The claim, that the recognizer returns \<open>ErrUnsupportedListLine\<close> whenever
  no format parses, fails here.
\<close>

theorem dir_short_line:
  "parseDirListLine ''<DIR> pub'' now loc =
     Inr \<lparr>Name = ''pub'', Target = [], Type = EntryTypeFolder, Size = 0, Time = zeroTime\<rparr>
   \<and> list_all (\<lambda>(n, format). len ''<DIR> pub'' \<le> n
         \<and> ParseInLocation format (take (nat n) ''<DIR> pub'') loc = Inl TimeParseError)
       dirTimeFormats"
  by code_simp

text \<open>
  C8. The line \<^verbatim>\<open>12 files\<close> meets the structural precondition of no recognizer: it has
  no semicolon, its first field has two bytes, no date format parses its prefix, and
  it has two tokens where the IBM recognizer needs six. The top-level parse still
  returns an entry, a file of size 12 named \<^verbatim>\<open>files\<close> with the zero time, from the DOS
  recognizer. The claim, that such lines give \<open>ErrUnsupportedListLine\<close> and no record,
  fails here.
\<close>

theorem unstructured_short_line:
  "parseListLine ''12 files'' now loc =
     Inr \<lparr>Name = ''files'', Target = [], Type = EntryTypeFile, Size = 12, Time = zeroTime\<rparr>
   \<and> parseDirListLine ''12 files'' now loc = parseListLine ''12 files'' now loc
   \<and> parseRFC3659ListLine ''12 files'' now loc = Inl ErrUnsupportedListLine
   \<and> parseLsListLine ''12 files'' now loc = Inl ErrUnsupportedListLine
   \<and> parseHostedFTPLine ''12 files'' now loc = Inl ErrUnsupportedListLine
   \<and> parseIbmListLine ''12 files'' now loc = Inl ErrUnsupportedListLine"
  by code_simp

end
